theory Spec2Isabelle
  imports
    Complex_Main
    "HOL-Library.Char_ord"
    "HOL-Library.List_Lexorder"
    "HOL-Library.Product_Lexorder"
    "HOL-Library.AList"
begin

section \<open>Data frames\<close>

text \<open>
  The processor of \<^verbatim>\<open>generate_migration_variations.py\<close> keeps its tables as data
  frames. A data frame is a list of rows; a missing cell (NaN, NaT, None) is \<open>None\<close>.
  Numbers are rationals: the sums, means and quotients of the script are exact here.
  Text is ordered by character code and tuples lexicographically, as the group keys of
  the script are. This section holds the operations of the data frame library that the
  script calls; the sections after it follow the script method by method.
\<close>

datatype error = DateParseError | ValueError | FileNotFoundError

text \<open>\<^verbatim>\<open>df.groupby(keys)\<close>: the groups are the distinct keys in ascending order.\<close>

definition group_keys :: "('r \<Rightarrow> 'k::linorder) \<Rightarrow> 'r list \<Rightarrow> 'k list" where
  "group_keys key rows = sort (remdups (map key rows))"

text \<open>\<^verbatim>\<open>df.groupby(keys)[col].sum().reset_index()\<close>: one row per group, with the sum.\<close>

definition groupby_sum :: "('r \<Rightarrow> 'k::linorder) \<Rightarrow> ('r \<Rightarrow> rat) \<Rightarrow> 'r list \<Rightarrow> ('k \<times> rat) list" where
  "groupby_sum key val rows =
     map (\<lambda>k. (k, sum_list (map val (filter (\<lambda>r. key r = k) rows)))) (group_keys key rows)"

text \<open>\<^verbatim>\<open>groupby\<close> leaves out the rows whose key cell is missing: the rows that have the
  cell, each with its value.\<close>

definition rows_with :: "('r \<Rightarrow> 'a option) \<Rightarrow> 'r list \<Rightarrow> ('a \<times> 'r) list" where
  "rows_with cell rows = concat (map (\<lambda>r. case cell r of None \<Rightarrow> [] | Some c \<Rightarrow> [(c, r)]) rows)"

text \<open>
  \<^verbatim>\<open>left.merge(right, on=keys, how='outer')\<close> of two keyed tables: the keys of either
  side in ascending order; a key of both sides gives every pairing of its rows, a key of
  one side only gives that side's rows with the other side's value missing.
\<close>

definition merge_outer ::
  "('k::linorder \<times> 'a) list \<Rightarrow> ('k \<times> 'b) list \<Rightarrow> ('k \<times> 'a option \<times> 'b option) list" where
  "merge_outer left right =
     concat (map (\<lambda>k.
        let ls = map snd (filter (\<lambda>p. fst p = k) left);
            rs = map snd (filter (\<lambda>p. fst p = k) right)
        in if rs = [] then map (\<lambda>a. (k, Some a, None)) ls
           else if ls = [] then map (\<lambda>b. (k, None, Some b)) rs
           else concat (map (\<lambda>a. map (\<lambda>b. (k, Some a, Some b)) rs) ls))
       (sort (remdups (map fst left @ map fst right))))"

text \<open>\<^verbatim>\<open>.fillna(0)\<close> on one numeric cell.\<close>

definition fillna :: "rat \<Rightarrow> rat option \<Rightarrow> rat" where
  "fillna d c = (case c of None \<Rightarrow> d | Some v \<Rightarrow> v)"

text \<open>\<^verbatim>\<open>series.unique()\<close>: the distinct values in the order of their first appearance.\<close>

definition unique_values :: "'a list \<Rightarrow> 'a list" where
  "unique_values xs = rev (remdups (rev xs))"

text \<open>\<^verbatim>\<open>pd.concat\<close> of a list of frames raises on the empty list.\<close>

definition pd_concat :: "'a list list \<Rightarrow> error + 'a list" where
  "pd_concat frames = (if frames = [] then Inl ValueError else Inr (concat frames))"

text \<open>
  \<^verbatim>\<open>df.groupby(g)[col].shift(1)\<close> on a column paired with its group: every row gets the
  value of the preceding row of its group, and the first row of a group a missing value.
\<close>

definition shift_in_groups :: "('g \<times> 'v option) list \<Rightarrow> 'v option list" where
  "shift_in_groups gvs =
     map (\<lambda>i. let ps = filter (\<lambda>p. fst p = fst (gvs ! i)) (take i gvs)
               in if ps = [] then None else snd (last ps))
       [0..<length gvs]"

text \<open>Arithmetic on cells: a missing operand gives a missing result.
  \<^verbatim>\<open>series.replace(0, np.nan)\<close> turns the cell 0 into a missing one.\<close>

definition nan_lift2 :: "(rat \<Rightarrow> rat \<Rightarrow> rat) \<Rightarrow> rat option \<Rightarrow> rat option \<Rightarrow> rat option" where
  "nan_lift2 f a b = (case a of None \<Rightarrow> None | Some x \<Rightarrow> (case b of None \<Rightarrow> None | Some y \<Rightarrow> Some (f x y)))"

definition replace_with_nan :: "rat \<Rightarrow> rat option \<Rightarrow> rat option" where
  "replace_with_nan z c = (if c = Some z then None else c)"

text \<open>
  \<^verbatim>\<open>series.nlargest(n)\<close> on a keyed column: the \<open>n\<close> rows of greatest value in descending
  order, rows of equal value in the order of the table (\<^verbatim>\<open>keep='first'\<close>).
\<close>

definition nlargest :: "nat \<Rightarrow> ('k \<times> rat) list \<Rightarrow> ('k \<times> rat) list" where
  "nlargest n t = take n (sort_key (\<lambda>p. - snd p) t)"

text \<open>
  \<^verbatim>\<open>series.rolling(w).mean()\<close>: at position \<open>i\<close> the mean of the \<open>w\<close> values ending
  there, missing while fewer than \<open>w\<close> values are available.
\<close>

definition rolling_mean :: "nat \<Rightarrow> rat list \<Rightarrow> rat option list" where
  "rolling_mean w xs =
     map (\<lambda>i. if w \<le> i + 1 then Some (sum_list (take w (drop (i + 1 - w) xs)) / of_nat w)
               else None)
       [0..<length xs]"

text \<open>
  \<^verbatim>\<open>series.rank(method='dense', ascending=False)\<close> for one value \<open>v\<close> of the column
  \<open>vs\<close>: one more than the number of distinct values above it.
\<close>

definition rank_dense_desc :: "rat list \<Rightarrow> rat \<Rightarrow> rat" where
  "rank_dense_desc vs v = of_nat (length (filter (\<lambda>w. v < w) (sort (remdups vs))) + 1)"

text \<open>
  \<^verbatim>\<open>series.rank(pct=True)\<close>, ascending with the default method: the values equal to
  \<open>v\<close> take the positions after the smaller ones, each gets the average of these
  positions, and the rank is divided by the number of values.
\<close>

definition rank_average :: "rat list \<Rightarrow> rat \<Rightarrow> rat" where
  "rank_average vs v =
     (let l = length (filter (\<lambda>w. w < v) vs);
          e = length (filter (\<lambda>w. w = v) vs)
      in of_nat (sum_list [l + 1 ..< l + e + 1]) / of_nat e)"

definition rank_pct :: "rat list \<Rightarrow> rat \<Rightarrow> rat" where
  "rank_pct vs v = rank_average vs v / of_nat (length vs)"

text \<open>
  \<^verbatim>\<open>np.polyfit(x, y, 1)\<close>: slope and intercept of the least-squares line, here by the
  normal equations in exact arithmetic.
\<close>

definition polyfit1 :: "rat list \<Rightarrow> rat list \<Rightarrow> rat \<times> rat" where
  "polyfit1 xs ys =
     (let n = of_nat (length xs);
          sx = sum_list xs;
          sy = sum_list ys;
          sxx = sum_list (map (\<lambda>x. x * x) xs);
          sxy = sum_list (map (\<lambda>(x, y). x * y) (zip xs ys));
          slope = (n * sxy - sx * sy) / (n * sxx - sx * sx)
      in (slope, (sy - slope * sx) / n))"

section \<open>Dates\<close>

record timestamp =
  ts_year :: int
  ts_month :: nat
  ts_day :: nat

definition is_digit :: "char \<Rightarrow> bool" where
  "is_digit c = (CHR ''0'' \<le> c \<and> c \<le> CHR ''9'')"

definition digits_val :: "string \<Rightarrow> nat" where
  "digits_val s = foldl (\<lambda>a c. 10 * a + (of_char c - 48)) 0 s"

definition is_leap :: "nat \<Rightarrow> bool" where
  "is_leap y = (y mod 4 = 0 \<and> (y mod 100 \<noteq> 0 \<or> y mod 400 = 0))"

definition days_in_month :: "nat \<Rightarrow> nat \<Rightarrow> nat" where
  "days_in_month y m =
     (if m = 2 then (if is_leap y then 29 else 28)
      else if m = 4 \<or> m = 6 \<or> m = 9 \<or> m = 11 then 30 else 31)"

definition mk_timestamp :: "nat \<Rightarrow> nat \<Rightarrow> nat \<Rightarrow> error + timestamp" where
  "mk_timestamp y m d =
     (if 1 \<le> m \<and> m \<le> 12 \<and> 1 \<le> d \<and> d \<le> days_in_month y m
      then Inr \<lparr>ts_year = int y, ts_month = m, ts_day = d\<rparr>
      else Inl DateParseError)"

text \<open>
  \<^verbatim>\<open>pd.to_datetime\<close> on one text of the month column. The script passes no format, so
  the library reads the ISO-8601 layouts: \<^verbatim>\<open>YYYY-MM\<close> is the first day of the month and
  \<^verbatim>\<open>YYYY-MM-DD\<close> is that day, whatever valid day it names. The model covers these two
  layouts and reports every other text as a parse error; the further layouts the library
  guesses and the range limit of its nanosecond timestamps are outside the model.
\<close>

definition to_datetime :: "string \<Rightarrow> error + timestamp" where
  "to_datetime s =
     (if length s = 7 \<and> list_all is_digit (take 4 s) \<and> s ! 4 = CHR ''-''
         \<and> list_all is_digit (drop 5 s)
      then mk_timestamp (digits_val (take 4 s)) (digits_val (drop 5 s)) 1
      else if length s = 10 \<and> list_all is_digit (take 4 s) \<and> s ! 4 = CHR ''-''
         \<and> list_all is_digit (take 2 (drop 5 s)) \<and> s ! 7 = CHR ''-''
         \<and> list_all is_digit (drop 8 s)
      then mk_timestamp (digits_val (take 4 s)) (digits_val (take 2 (drop 5 s)))
             (digits_val (drop 8 s))
      else Inl DateParseError)"

text \<open>The whole column: the first text that does not parse raises, and nothing is returned.\<close>

fun to_datetime_column :: "string list \<Rightarrow> error + timestamp list" where
  "to_datetime_column [] = Inr []"
| "to_datetime_column (s # ss) =
     (case to_datetime s of
        Inl e \<Rightarrow> Inl e
      | Inr d \<Rightarrow> (case to_datetime_column ss of Inl e \<Rightarrow> Inl e | Inr ds \<Rightarrow> Inr (d # ds)))"

text \<open>\<^verbatim>\<open>sort_values('date')\<close> orders by the calendar; rows of one date keep their order.\<close>

definition date_key :: "timestamp \<Rightarrow> int \<times> nat \<times> nat" where
  "date_key d = (ts_year d, ts_month d, ts_day d)"

section \<open>Regional mappings\<close>

text \<open>One row of the classification table \<^verbatim>\<open>m49.csv\<close>; any cell may be missing.\<close>

record m49_row =
  iso_alpha2 :: "string option"
  region_code :: "int option"
  region_name :: "string option"
  sub_region_code :: "int option"
  sub_region_name :: "string option"
  intermediate_region_code :: "int option"
  intermediate_region_name :: "string option"

text \<open>
  The six dictionaries of the processor, as association lists in insertion order.
  A stored value may itself be a missing cell.
\<close>

record mappings =
  country_to_region :: "(string \<times> int option) list"
  country_to_subregion :: "(string \<times> int option) list"
  country_to_intermediate :: "(string \<times> int option) list"
  region_names :: "(int \<times> string option) list"
  subregion_names :: "(int \<times> string option) list"
  intermediate_names :: "(int \<times> string option) list"

definition empty_mappings :: mappings where
  "empty_mappings = \<lparr>country_to_region = [], country_to_subregion = [],
     country_to_intermediate = [], region_names = [], subregion_names = [],
     intermediate_names = []\<rparr>"

text \<open>\<^verbatim>\<open>names[code] = name\<close> under \<^verbatim>\<open>if not pd.isna(code)\<close>.\<close>

definition store_name :: "int option \<Rightarrow> string option \<Rightarrow> (int \<times> string option) list \<Rightarrow> (int \<times> string option) list" where
  "store_name code name names = (case code of None \<Rightarrow> names | Some c \<Rightarrow> AList.update c name names)"

text \<open>The body of the loop over the classification rows in \<^verbatim>\<open>load_regional_mappings\<close>.\<close>

definition mapping_step :: "mappings \<Rightarrow> m49_row \<Rightarrow> mappings" where
  "mapping_step m row =
     (case iso_alpha2 row of
        None \<Rightarrow> m
      | Some iso2 \<Rightarrow>
          \<lparr>country_to_region = AList.update iso2 (region_code row) (country_to_region m),
           country_to_subregion = AList.update iso2 (sub_region_code row) (country_to_subregion m),
           country_to_intermediate =
             AList.update iso2 (intermediate_region_code row) (country_to_intermediate m),
           region_names = store_name (region_code row) (region_name row) (region_names m),
           subregion_names =
             store_name (sub_region_code row) (sub_region_name row) (subregion_names m),
           intermediate_names =
             store_name (intermediate_region_code row) (intermediate_region_name row)
               (intermediate_names m)\<rparr>)"

definition load_regional_mappings :: "m49_row list \<Rightarrow> mappings" where
  "load_regional_mappings rows = foldl mapping_step empty_mappings rows"

text \<open>\<^verbatim>\<open>series.map(dict)\<close> on one cell: a key that is absent, or stored with a missing
  value, gives a missing cell.\<close>

definition map_dict :: "('k \<times> 'v option) list \<Rightarrow> 'k \<Rightarrow> 'v option" where
  "map_dict d k = (case map_of d k of None \<Rightarrow> None | Some v \<Rightarrow> v)"

text \<open>
  The lookup \<^verbatim>\<open>names.get(code, f"Label_{code}")\<close> that every aggregation of regions
  applies, with the label Region, Subregion or Intermediate: the entry stored under the
  code or, when the dictionary has none, the label joined to the code. The entry may be a
  missing cell, which is returned as it is. The code is printed as Python prints an
  integer.
\<close>

datatype kind = Region | Subregion | Intermediate

definition kind_label :: "kind \<Rightarrow> string" where
  "kind_label k = (case k of Region \<Rightarrow> ''Region'' | Subregion \<Rightarrow> ''Subregion''
                   | Intermediate \<Rightarrow> ''Intermediate'')"

definition names_of :: "kind \<Rightarrow> mappings \<Rightarrow> (int \<times> string option) list" where
  "names_of k m = (case k of Region \<Rightarrow> region_names m | Subregion \<Rightarrow> subregion_names m
                   | Intermediate \<Rightarrow> intermediate_names m)"

fun str_nat :: "nat \<Rightarrow> string" where
  "str_nat n = (if n < 10 then [char_of (48 + n)]
                else str_nat (n div 10) @ [char_of (48 + n mod 10)])"

definition str_int :: "int \<Rightarrow> string" where
  "str_int i = (if i < 0 then CHR ''-'' # str_nat (nat (- i)) else str_nat (nat i))"

definition name_for :: "kind \<Rightarrow> mappings \<Rightarrow> int \<Rightarrow> string option" where
  "name_for k m code =
     (case map_of (names_of k m) code of
        Some name \<Rightarrow> name
      | None \<Rightarrow> Some (kind_label k @ ''_'' @ str_int code))"

section \<open>The record store\<close>

text \<open>
  One row of the raw flow table, and the record \<^verbatim>\<open>load_migration_data\<close> makes of it.
  The two country codes, the month text and the count are present in every row; the codes
  of regions are missing for a country that the classification does not map.
\<close>

record raw_row =
  raw_country_from :: string
  raw_country_to :: string
  raw_migration_month :: string
  raw_num_migrants :: rat

record flow_record =
  country_from :: string
  country_to :: string
  migration_month :: string
  num_migrants :: rat
  date :: timestamp
  year :: int
  month :: nat
  quarter :: nat
  region_from :: "int option"
  region_to :: "int option"
  subregion_from :: "int option"
  subregion_to :: "int option"
  intermediate_from :: "int option"
  intermediate_to :: "int option"
  season :: "string option"

text \<open>The derived columns: year, month and quarter of the date, the six region codes by
  \<^verbatim>\<open>series.map\<close> of the dictionaries, the season by the month.\<close>

definition season_map :: "(nat \<times> string option) list" where
  "season_map =
     [(12, Some ''Winter''), (1, Some ''Winter''), (2, Some ''Winter''),
      (3, Some ''Spring''), (4, Some ''Spring''), (5, Some ''Spring''),
      (6, Some ''Summer''), (7, Some ''Summer''), (8, Some ''Summer''),
      (9, Some ''Fall''), (10, Some ''Fall''), (11, Some ''Fall'')]"

definition enrich :: "mappings \<Rightarrow> raw_row \<Rightarrow> timestamp \<Rightarrow> flow_record" where
  "enrich m r d =
     \<lparr>country_from = raw_country_from r,
      country_to = raw_country_to r,
      migration_month = raw_migration_month r,
      num_migrants = raw_num_migrants r,
      date = d,
      year = ts_year d,
      month = ts_month d,
      quarter = (ts_month d - 1) div 3 + 1,
      region_from = map_dict (country_to_region m) (raw_country_from r),
      region_to = map_dict (country_to_region m) (raw_country_to r),
      subregion_from = map_dict (country_to_subregion m) (raw_country_from r),
      subregion_to = map_dict (country_to_subregion m) (raw_country_to r),
      intermediate_from = map_dict (country_to_intermediate m) (raw_country_from r),
      intermediate_to = map_dict (country_to_intermediate m) (raw_country_to r),
      season = map_dict season_map (ts_month d)\<rparr>"

text \<open>\<^verbatim>\<open>load_migration_data\<close>: the dates are parsed first, for the whole column; a text
  that does not parse raises and no frame is built.\<close>

definition load_migration_data :: "mappings \<Rightarrow> raw_row list \<Rightarrow> error + flow_record list" where
  "load_migration_data m rows =
     (case to_datetime_column (map raw_migration_month rows) of
        Inl e \<Rightarrow> Inl e
      | Inr ds \<Rightarrow> Inr (map (\<lambda>(r, d). enrich m r d) (zip rows ds)))"

section \<open>Spatial aggregations\<close>

text \<open>\<^verbatim>\<open>generate_country_to_country\<close> writes four columns of the frame as they are.\<close>

record country_flow_row =
  cf_country_from :: string
  cf_country_to :: string
  cf_migration_month :: string
  cf_num_migrants :: rat

definition generate_country_to_country :: "flow_record list \<Rightarrow> country_flow_row list" where
  "generate_country_to_country df =
     map (\<lambda>r. \<lparr>cf_country_from = country_from r, cf_country_to = country_to r,
                cf_migration_month = migration_month r, cf_num_migrants = num_migrants r\<rparr>) df"

record region_country_row =
  rc_region_from :: "string option"
  rc_country_to :: string
  rc_migration_month :: string
  rc_num_migrants :: rat

text \<open>\<^verbatim>\<open>generate_region_to_country\<close>: the sums by origin region, destination and month,
  the region shown by its name.\<close>

definition generate_region_to_country :: "mappings \<Rightarrow> flow_record list \<Rightarrow> region_country_row list" where
  "generate_region_to_country m df =
     map (\<lambda>((region, cto, month_text), total).
            \<lparr>rc_region_from = name_for Region m region, rc_country_to = cto,
             rc_migration_month = month_text, rc_num_migrants = total\<rparr>)
       (groupby_sum (\<lambda>(region, r). (region, country_to r, migration_month r))
          (\<lambda>(region, r). num_migrants r) (rows_with region_from df))"

section \<open>Temporal aggregations\<close>

text \<open>One row of the rolling averages of the top corridors.\<close>

record rolling_row =
  ra_country_from :: string
  ra_country_to :: string
  ra_migration_month :: string
  ra_num_migrants :: rat
  rolling_3m :: "rat option"
  rolling_6m :: "rat option"
  trend_slope :: "rat option"

text \<open>The hundred corridors of greatest all-time total.\<close>

definition top_corridors :: "flow_record list \<Rightarrow> (string \<times> string) list" where
  "top_corridors df =
     map fst (nlargest 100 (groupby_sum (\<lambda>r. (country_from r, country_to r)) num_migrants df))"

text \<open>The frame of one corridor with its three added columns.\<close>

definition corridor_frame :: "flow_record list \<Rightarrow> rolling_row list" where
  "corridor_frame corridor_df =
     (let counts = map num_migrants corridor_df;
          trend =
            (if 12 \<le> length corridor_df
             then (let recent_data = drop (length counts - 12) counts;
                       x = map of_nat [0..<length recent_data]
                   in Some (fst (polyfit1 x recent_data)))
             else None)
      in map (\<lambda>(r, r3, r6).
                \<lparr>ra_country_from = country_from r, ra_country_to = country_to r,
                 ra_migration_month = migration_month r, ra_num_migrants = num_migrants r,
                 rolling_3m = r3, rolling_6m = r6, trend_slope = trend\<rparr>)
           (zip corridor_df (zip (rolling_mean 3 counts) (rolling_mean 6 counts))))"

text \<open>The list \<^verbatim>\<open>corridor_data\<close> that the loop over the top corridors collects.\<close>

definition corridor_data :: "flow_record list \<Rightarrow> rolling_row list list" where
  "corridor_data df =
     concat (map (\<lambda>(from_country, to_country).
        let corridor_df =
              sort_key (\<lambda>r. date_key (date r))
                (filter (\<lambda>r. country_from r = from_country \<and> country_to r = to_country) df)
        in if 6 \<le> length corridor_df then [corridor_frame corridor_df] else [])
       (top_corridors df))"

text \<open>\<^verbatim>\<open>generate_rolling_averages\<close>: the frames concatenated and written, when there is
  one; nothing is written otherwise.\<close>

definition generate_rolling_averages :: "flow_record list \<Rightarrow> rolling_row list option" where
  "generate_rolling_averages df =
     (if corridor_data df \<noteq> [] then Some (concat (corridor_data df)) else None)"

section \<open>Flow calculations\<close>

text \<open>
  \<^verbatim>\<open>generate_net_flows\<close>. The outbound table sums by (country_from, country_to, year).
  The inbound table sums by (country_to, country_from, year) and then has these two
  columns renamed to country_from and country_to: its row for (a, b, y) holds the flows
  from b to a. The two are merged on the three columns, a missing side filled with 0.
\<close>

record net_flow_row =
  nf_country_from :: string
  nf_country_to :: string
  nf_year :: int
  net_flow :: rat
  gross_flow :: rat

definition generate_net_flows :: "flow_record list \<Rightarrow> net_flow_row list" where
  "generate_net_flows df =
     (let outbound = groupby_sum (\<lambda>r. (country_from r, country_to r, year r)) num_migrants df;
          inbound = groupby_sum (\<lambda>r. (country_to r, country_from r, year r)) num_migrants df;
          net_flows = merge_outer outbound inbound
      in map (\<lambda>((cfrom, cto, yr), num_migrants_out, num_migrants_in).
                \<lparr>nf_country_from = cfrom, nf_country_to = cto, nf_year = yr,
                 net_flow = fillna 0 num_migrants_in - fillna 0 num_migrants_out,
                 gross_flow = fillna 0 num_migrants_in + fillna 0 num_migrants_out\<rparr>)
           net_flows)"

text \<open>One row of the corridor rankings: the annual total with its rank and percentile.\<close>

record ranking_row =
  rk_country_from :: string
  rk_country_to :: string
  rk_year :: int
  rk_num_migrants :: rat
  rank :: rat
  percentile :: rat

text \<open>
  \<^verbatim>\<open>generate_corridor_rankings\<close>: for each year of the annual totals, in the order the
  years first appear, the rows of that year with the dense rank of the total (descending)
  and its percentage rank (ascending), both taken within the year.
\<close>

definition generate_corridor_rankings :: "flow_record list \<Rightarrow> error + ranking_row list" where
  "generate_corridor_rankings df =
     (let annual_totals =
            groupby_sum (\<lambda>r. (country_from r, country_to r, year r)) num_migrants df;
          rankings =
            map (\<lambda>yr.
                   let year_data = filter (\<lambda>((cfrom, cto, y), v). y = yr) annual_totals;
                       vs = map snd year_data
                   in map (\<lambda>((cfrom, cto, y), v).
                             \<lparr>rk_country_from = cfrom, rk_country_to = cto, rk_year = y,
                              rk_num_migrants = v,
                              rank = rank_dense_desc vs v,
                              percentile = rank_pct vs v * 100\<rparr>) year_data)
              (unique_values (map (\<lambda>((cfrom, cto, y), v). y) annual_totals))
      in pd_concat rankings)"

text \<open>One row of the growth rates; rate and velocity may be missing.\<close>

record growth_row =
  gr_country_from :: string
  gr_country_to :: string
  gr_year :: int
  gr_num_migrants :: rat
  growth_rate :: "rat option"
  growth_velocity :: "rat option"

text \<open>
  \<^verbatim>\<open>generate_growth_rates\<close>: the annual totals sorted by corridor and year, the prior
  total of the corridor, the growth rate over it (a prior total of 0 replaced by a missing
  value before dividing), the prior growth rate and the velocity; the rows without a
  growth rate are dropped.
\<close>

definition generate_growth_rates :: "flow_record list \<Rightarrow> growth_row list" where
  "generate_growth_rates df =
     (let annual_flows =
            sort_key fst
              (groupby_sum (\<lambda>r. (country_from r, country_to r, year r)) num_migrants df);
          prev_year_flow =
            shift_in_groups (map (\<lambda>((cfrom, cto, y), v). ((cfrom, cto), Some v)) annual_flows);
          growth_rate_col =
            map (\<lambda>(((cfrom, cto, y), v), prev).
                   nan_lift2 (*)
                     (nan_lift2 (/) (nan_lift2 (-) (Some v) prev) (replace_with_nan 0 prev))
                     (Some 100))
              (zip annual_flows prev_year_flow);
          prev_growth_rate =
            shift_in_groups
              (map (\<lambda>(((cfrom, cto, y), v), g). ((cfrom, cto), g)) (zip annual_flows growth_rate_col));
          growth_velocity_col =
            map (\<lambda>(g, pg). nan_lift2 (-) g pg) (zip growth_rate_col prev_growth_rate)
      in filter (\<lambda>row. growth_rate row \<noteq> None)
           (map (\<lambda>(((cfrom, cto, y), v), g, gv).
                   \<lparr>gr_country_from = cfrom, gr_country_to = cto, gr_year = y,
                    gr_num_migrants = v, growth_rate = g, growth_velocity = gv\<rparr>)
              (zip annual_flows (zip growth_rate_col growth_velocity_col))))"

section \<open>The run and its artifacts\<close>

text \<open>
  The files of a run. Every \<^verbatim>\<open>generate_*\<close> method writes JSON files into the output
  directory and returns one path; here each is the pair of the returned file name and the
  names of the files it writes, in order. The tables behind the names are those of the
  operations above.
\<close>

type_synonym file_effect = "string \<times> string list"

definition country_to_country_files :: file_effect where
  "country_to_country_files =
     (''flows_country_to_country_monthly.json'', [''flows_country_to_country_monthly.json''])"

definition region_to_country_files :: file_effect where
  "region_to_country_files =
     (''flows_region_to_country_monthly.json'', [''flows_region_to_country_monthly.json''])"

definition country_to_region_files :: file_effect where
  "country_to_region_files =
     (''flows_country_to_region_monthly.json'', [''flows_country_to_region_monthly.json''])"

definition region_to_region_files :: file_effect where
  "region_to_region_files =
     (''flows_region_to_region_monthly.json'', [''flows_region_to_region_monthly.json''])"

text \<open>\<^verbatim>\<open>generate_subregional_clustering\<close> also writes the intermediate-region flows
  when the dictionary of intermediate names is not empty, and returns the first path.\<close>

definition subregional_clustering_files :: "mappings \<Rightarrow> file_effect" where
  "subregional_clustering_files m =
     (''flows_subregion_to_subregion_monthly.json'',
      ''flows_subregion_to_subregion_monthly.json''
      # (if intermediate_names m \<noteq> []
         then [''flows_intermediate_to_intermediate_monthly.json''] else []))"

definition quarterly_averages_files :: file_effect where
  "quarterly_averages_files =
     (''flows_country_to_country_quarterly.json'', [''flows_country_to_country_quarterly.json''])"

text \<open>\<^verbatim>\<open>generate_annual_totals\<close> writes the country and the region totals, and returns
  the path of the first.\<close>

definition annual_totals_files :: file_effect where
  "annual_totals_files =
     (''flows_country_to_country_annual.json'',
      [''flows_country_to_country_annual.json'', ''flows_region_to_region_annual.json''])"

definition seasonal_patterns_files :: file_effect where
  "seasonal_patterns_files =
     (''flows_seasonal_patterns_country.json'', [''flows_seasonal_patterns_country.json''])"

text \<open>\<^verbatim>\<open>generate_rolling_averages\<close> returns its path whether or not it wrote the file.\<close>

definition rolling_averages_files :: "flow_record list \<Rightarrow> file_effect" where
  "rolling_averages_files df =
     (''flows_rolling_averages_top100.json'',
      (if generate_rolling_averages df \<noteq> None then [''flows_rolling_averages_top100.json'']
       else []))"

definition gross_flows_files :: file_effect where
  "gross_flows_files = (''flows_gross_annual_country.json'', [''flows_gross_annual_country.json''])"

definition net_flows_files :: file_effect where
  "net_flows_files = (''flows_net_annual_country.json'', [''flows_net_annual_country.json''])"

definition corridor_rankings_files :: file_effect where
  "corridor_rankings_files =
     (''flows_corridor_rankings_annual.json'', [''flows_corridor_rankings_annual.json''])"

definition growth_rates_files :: file_effect where
  "growth_rates_files =
     (''flows_growth_rates_annual.json'', [''flows_growth_rates_annual.json''])"

record run_report =
  generated_files :: "string list"
  written :: "string list"

text \<open>
  \<^verbatim>\<open>generate_all_variations\<close>, given the files already in the output directory: the
  thirteen calls in order; the ranking raises when it has no year to rank, which ends the
  run; the summary reads the size of every returned path and raises when one of them is
  not a file.
\<close>

definition generate_all_variations ::
  "mappings \<Rightarrow> flow_record list \<Rightarrow> string list \<Rightarrow> error + run_report" where
  "generate_all_variations m df existing =
     (case generate_corridor_rankings df of
        Inl e \<Rightarrow> Inl e
      | Inr rankings \<Rightarrow>
          (let effects =
                 [country_to_country_files, region_to_country_files, country_to_region_files,
                  region_to_region_files, subregional_clustering_files m,
                  quarterly_averages_files, annual_totals_files, seasonal_patterns_files,
                  rolling_averages_files df,
                  gross_flows_files, net_flows_files, corridor_rankings_files,
                  growth_rates_files];
               report = \<lparr>generated_files = map fst effects, written = concat (map snd effects)\<rparr>
           in if list_all (\<lambda>f. f \<in> set existing \<or> f \<in> set (written report))
                   (generated_files report)
              then Inr report else Inl FileNotFoundError))"

section \<open>Notions of the specification\<close>

text \<open>The flows the records report from \<open>a\<close> to \<open>b\<close> in year \<open>y\<close>, summed; 0 when
  there is none. For the pair (origin \<open>a\<close>, destination \<open>b\<close>) this is the outbound sum,
  and \<open>flow_sum df b a y\<close>, with the roles swapped, the inbound sum.\<close>

definition flow_sum :: "flow_record list \<Rightarrow> string \<Rightarrow> string \<Rightarrow> int \<Rightarrow> rat" where
  "flow_sum df a b y =
     sum_list (map num_migrants
       (filter (\<lambda>r. country_from r = a \<and> country_to r = b \<and> year r = y) df))"

text \<open>The key of a row of the net flows.\<close>

definition net_key :: "net_flow_row \<Rightarrow> string \<times> string \<times> int" where
  "net_key row = (nf_country_from row, nf_country_to row, nf_year row)"

text \<open>Following the specification's words: a month value has the expected format when it
  reads \<^verbatim>\<open>YYYY-MM\<close> or \<^verbatim>\<open>YYYY-MM-01\<close>, with a month from 01 to 12.\<close>

definition is_year_month_text :: "string \<Rightarrow> bool" where
  "is_year_month_text s =
     ((length s = 7 \<or> (length s = 10 \<and> drop 7 s = ''-01''))
      \<and> list_all is_digit (take 4 s) \<and> s ! 4 = CHR ''-''
      \<and> list_all is_digit (take 2 (drop 5 s))
      \<and> 1 \<le> digits_val (take 2 (drop 5 s)) \<and> digits_val (take 2 (drop 5 s)) \<le> 12)"

text \<open>The code and name cells of a classification row for one kind, and what the
  load records under a code: the name cell of the last row that has a country code and
  carries the code; nothing when there is no such row.\<close>

definition code_cell :: "kind \<Rightarrow> m49_row \<Rightarrow> int option" where
  "code_cell k row = (case k of Region \<Rightarrow> region_code row | Subregion \<Rightarrow> sub_region_code row
                      | Intermediate \<Rightarrow> intermediate_region_code row)"

definition name_cell :: "kind \<Rightarrow> m49_row \<Rightarrow> string option" where
  "name_cell k row = (case k of Region \<Rightarrow> region_name row | Subregion \<Rightarrow> sub_region_name row
                      | Intermediate \<Rightarrow> intermediate_region_name row)"

definition recorded_cell :: "kind \<Rightarrow> m49_row list \<Rightarrow> int \<Rightarrow> string option option" where
  "recorded_cell k rows c =
     (let rs = filter (\<lambda>row. iso_alpha2 row \<noteq> None \<and> code_cell k row = Some c) rows
      in if rs = [] then None else Some (name_cell k (last rs)))"

text \<open>The number of output rows of one year whose total satisfies a condition.\<close>

definition count_in_year :: "ranking_row list \<Rightarrow> int \<Rightarrow> (rat \<Rightarrow> bool) \<Rightarrow> nat" where
  "count_in_year out y P = length (filter (\<lambda>r. rk_year r = y \<and> P (rk_num_migrants r)) out)"






text \<open>
  Following the specification's words. The observations of a corridor in chronological
  order; the sum of squared residuals of the line \<open>m * i + c\<close> against the values at the
  0-based positions \<open>i\<close>; and \<open>m\<close> being a slope of ordinary least squares: with some
  intercept, no line has a smaller sum of squared residuals.
\<close>

definition corridor_obs :: "flow_record list \<Rightarrow> string \<Rightarrow> string \<Rightarrow> flow_record list" where
  "corridor_obs df a b =
     sort_key (\<lambda>r. date_key (date r)) (filter (\<lambda>r. country_from r = a \<and> country_to r = b) df)"







section \<open>Auxiliary definitions\<close>

text \<open>The values a keyed table holds under one key, and the rows the outer merge makes
  of one key's values on the two sides.\<close>

definition lookup_rows :: "'k \<Rightarrow> ('k \<times> 'v) list \<Rightarrow> 'v list" where
  "lookup_rows k t = map snd (filter (\<lambda>p. fst p = k) t)"

definition merge_rows :: "'k \<Rightarrow> 'a list \<Rightarrow> 'b list \<Rightarrow> ('k \<times> 'a option \<times> 'b option) list" where
  "merge_rows k ls rs =
     (if rs = [] then map (\<lambda>a. (k, Some a, None)) ls
      else if ls = [] then map (\<lambda>b. (k, None, Some b)) rs
      else concat (map (\<lambda>a. map (\<lambda>b. (k, Some a, Some b)) rs) ls))"

text \<open>The annual totals, the totals of one year in their order, and the rows the ranking
  makes of one year.\<close>

definition annual_totals_of :: "flow_record list \<Rightarrow> ((string \<times> string \<times> int) \<times> rat) list" where
  "annual_totals_of df = groupby_sum (\<lambda>r. (country_from r, country_to r, year r)) num_migrants df"

definition year_totals :: "flow_record list \<Rightarrow> int \<Rightarrow> rat list" where
  "year_totals df yr = map snd (filter (\<lambda>((cfrom, cto, y), v). y = yr) (annual_totals_of df))"

definition ranking_block :: "flow_record list \<Rightarrow> int \<Rightarrow> ranking_row list" where
  "ranking_block df yr =
     map (\<lambda>((cfrom, cto, y), v).
            \<lparr>rk_country_from = cfrom, rk_country_to = cto, rk_year = y, rk_num_migrants = v,
             rank = rank_dense_desc (year_totals df yr) v,
             percentile = rank_pct (year_totals df yr) v * 100\<rparr>)
       (filter (\<lambda>((cfrom, cto, y), v). y = yr) (annual_totals_of df))"








section \<open>Examples\<close>

text \<open>The worked example: one classification row and two flow rows.\<close>

definition example_classification :: "m49_row list" where
  "example_classification =
     [\<lparr>iso_alpha2 = Some ''CC'', region_code = Some 2, region_name = Some ''Region2'',
       sub_region_code = Some 21, sub_region_name = Some ''Sub21'',
       intermediate_region_code = None, intermediate_region_name = None\<rparr>]"

definition example_flows :: "raw_row list" where
  "example_flows =
     [\<lparr>raw_country_from = ''CC'', raw_country_to = ''XX'', raw_migration_month = ''2020-01'',
       raw_num_migrants = 100\<rparr>,
      \<lparr>raw_country_from = ''XX'', raw_country_to = ''CC'', raw_migration_month = ''2020-01'',
       raw_num_migrants = 40\<rparr>]"

definition example_df :: "flow_record list" where
  "example_df =
     map (\<lambda>r. enrich (load_regional_mappings example_classification) r
                 \<lparr>ts_year = 2020, ts_month = 1, ts_day = 1\<rparr>) example_flows"




text \<open>Flows with two equal annual totals in one year, the frame loaded from them and
  its rankings.\<close>

definition tie_flows :: "raw_row list" where
  "tie_flows =
     [\<lparr>raw_country_from = ''AA'', raw_country_to = ''BB'', raw_migration_month = ''2020-01'',
       raw_num_migrants = 10\<rparr>,
      \<lparr>raw_country_from = ''BB'', raw_country_to = ''AA'', raw_migration_month = ''2020-02'',
       raw_num_migrants = 10\<rparr>,
      \<lparr>raw_country_from = ''AA'', raw_country_to = ''CC'', raw_migration_month = ''2020-03'',
       raw_num_migrants = 7\<rparr>,
      \<lparr>raw_country_from = ''CC'', raw_country_to = ''AA'', raw_migration_month = ''2020-03'',
       raw_num_migrants = 3\<rparr>,
      \<lparr>raw_country_from = ''AA'', raw_country_to = ''BB'', raw_migration_month = ''2021-01'',
       raw_num_migrants = 5\<rparr>]"

definition tie_df :: "flow_record list" where
  "tie_df =
     map (\<lambda>(r, y, m). enrich empty_mappings r \<lparr>ts_year = y, ts_month = m, ts_day = 1\<rparr>)
       (zip tie_flows [(2020, 1), (2020, 2), (2020, 3), (2020, 3), (2021, 1)])"

definition tie_rankings :: "ranking_row list" where
  "tie_rankings =
     [\<lparr>rk_country_from = ''AA'', rk_country_to = ''BB'', rk_year = 2020,
       rk_num_migrants = 10, rank = 1, percentile = 175 / 2\<rparr>,
      \<lparr>rk_country_from = ''AA'', rk_country_to = ''CC'', rk_year = 2020,
       rk_num_migrants = 7, rank = 2, percentile = 50\<rparr>,
      \<lparr>rk_country_from = ''BB'', rk_country_to = ''AA'', rk_year = 2020,
       rk_num_migrants = 10, rank = 1, percentile = 175 / 2\<rparr>,
      \<lparr>rk_country_from = ''CC'', rk_country_to = ''AA'', rk_year = 2020,
       rk_num_migrants = 3, rank = 3, percentile = 25\<rparr>,
      \<lparr>rk_country_from = ''AA'', rk_country_to = ''BB'', rk_year = 2021,
       rk_num_migrants = 5, rank = 1, percentile = 100\<rparr>]"

text \<open>Flows of a corridor with totals 0, 10, 15 and 30 in 2018, 2019, 2020 and 2022, and a
  corridor with a single year; the frame loaded from them.\<close>

definition growth_flows :: "raw_row list" where
  "growth_flows =
     [\<lparr>raw_country_from = ''AA'', raw_country_to = ''BB'', raw_migration_month = ''2018-05'',
       raw_num_migrants = 0\<rparr>,
      \<lparr>raw_country_from = ''AA'', raw_country_to = ''BB'', raw_migration_month = ''2019-01'',
       raw_num_migrants = 10\<rparr>,
      \<lparr>raw_country_from = ''AA'', raw_country_to = ''BB'', raw_migration_month = ''2020-01'',
       raw_num_migrants = 12\<rparr>,
      \<lparr>raw_country_from = ''AA'', raw_country_to = ''BB'', raw_migration_month = ''2020-02'',
       raw_num_migrants = 3\<rparr>,
      \<lparr>raw_country_from = ''AA'', raw_country_to = ''BB'', raw_migration_month = ''2022-01'',
       raw_num_migrants = 30\<rparr>,
      \<lparr>raw_country_from = ''BB'', raw_country_to = ''AA'', raw_migration_month = ''2020-01'',
       raw_num_migrants = 4\<rparr>]"

definition growth_df :: "flow_record list" where
  "growth_df =
     map (\<lambda>(r, y, m). enrich empty_mappings r \<lparr>ts_year = y, ts_month = m, ts_day = 1\<rparr>)
       (zip growth_flows [(2018, 5), (2019, 1), (2020, 1), (2020, 2), (2022, 1), (2020, 1)])"

text \<open>Twelve months of one corridor, out of calendar order, and five months of another;
  the frame loaded from them with the example classification.\<close>

definition rolling_flows :: "raw_row list" where
  "rolling_flows =
     map (\<lambda>(m, n). \<lparr>raw_country_from = ''CC'', raw_country_to = ''XX'',
                     raw_migration_month = m, raw_num_migrants = n\<rparr>)
       [(''2020-02'', 20), (''2020-01'', 10), (''2020-03'', 60), (''2020-04'', 40),
        (''2020-05'', 50), (''2020-06'', 60), (''2020-07'', 70), (''2020-08'', 80),
        (''2020-09'', 90), (''2020-10'', 100), (''2020-11'', 110), (''2020-12'', 120)]
     @ map (\<lambda>(m, n). \<lparr>raw_country_from = ''XX'', raw_country_to = ''CC'',
                     raw_migration_month = m, raw_num_migrants = n\<rparr>)
       [(''2020-01'', 1000), (''2020-02'', 1000), (''2020-03'', 1000), (''2020-04'', 1000),
        (''2020-05'', 1000)]"

definition rolling_df :: "flow_record list" where
  "rolling_df =
     map (\<lambda>(r, m). enrich (load_regional_mappings example_classification) r
                       \<lparr>ts_year = 2020, ts_month = m, ts_day = 1\<rparr>)
       (zip rolling_flows [2, 1, 3, 4, 5, 6, 7, 8, 9, 10, 11, 12, 1, 2, 3, 4, 5])"

text \<open>The report of a run on the twelve-month example in an empty output directory.\<close>

definition rolling_run :: run_report where
  "rolling_run =
     \<lparr>generated_files =
        [''flows_country_to_country_monthly.json'', ''flows_region_to_country_monthly.json'',
         ''flows_country_to_region_monthly.json'', ''flows_region_to_region_monthly.json'',
         ''flows_subregion_to_subregion_monthly.json'',
         ''flows_country_to_country_quarterly.json'', ''flows_country_to_country_annual.json'',
         ''flows_seasonal_patterns_country.json'', ''flows_rolling_averages_top100.json'',
         ''flows_gross_annual_country.json'', ''flows_net_annual_country.json'',
         ''flows_corridor_rankings_annual.json'', ''flows_growth_rates_annual.json''],
      written =
        [''flows_country_to_country_monthly.json'', ''flows_region_to_country_monthly.json'',
         ''flows_country_to_region_monthly.json'', ''flows_region_to_region_monthly.json'',
         ''flows_subregion_to_subregion_monthly.json'',
         ''flows_country_to_country_quarterly.json'', ''flows_country_to_country_annual.json'',
         ''flows_region_to_region_annual.json'',
         ''flows_seasonal_patterns_country.json'', ''flows_rolling_averages_top100.json'',
         ''flows_gross_annual_country.json'', ''flows_net_annual_country.json'',
         ''flows_corridor_rankings_annual.json'', ''flows_growth_rates_annual.json'']\<rparr>"

section \<open>Properties of the data frame operations\<close>

lemma set_group_keys: "set (group_keys key rows) = key ` set rows"
  by (simp add: group_keys_def)

lemma distinct_group_keys: "distinct (group_keys key rows)"
  by (simp add: group_keys_def)

lemma filter_map_key_distinct:
  "distinct ks \<Longrightarrow> filter (\<lambda>p. fst p = k) (map (\<lambda>k. (k, g k)) ks) = (if k \<in> set ks then [(k, g k)] else [])"
  by (induction ks) auto

lemma lookup_groupby_sum:
  "lookup_rows k (groupby_sum key val rows) =
     (if k \<in> key ` set rows then [sum_list (map val (filter (\<lambda>r. key r = k) rows))] else [])"
  unfolding lookup_rows_def groupby_sum_def
  by (simp add: filter_map_key_distinct distinct_group_keys set_group_keys)

lemma keys_groupby_sum: "set (map fst (groupby_sum key val rows)) = key ` set rows"
  by (simp add: groupby_sum_def set_group_keys image_image)

lemma filter_concat_by_key:
  assumes "distinct ks" and "\<And>k' p. p \<in> set (f k') \<Longrightarrow> key p = k'"
  shows "filter (\<lambda>p. key p = k) (concat (map f ks)) = (if k \<in> set ks then f k else [])"
  using assms(1)
proof (induction ks)
  case Nil
  then show ?case by simp
next
  case (Cons a ks)
  have same: "filter (\<lambda>p. key p = a) (f a) = f a"
    using assms(2) by (simp add: filter_id_conv)
  have other: "a \<noteq> k \<Longrightarrow> filter (\<lambda>p. key p = k) (f a) = []"
    using assms(2) by (auto simp: filter_empty_conv)
  show ?case
  proof (cases "a = k")
    case True
    with Cons same show ?thesis by simp
  next
    case False
    with Cons show ?thesis by (auto simp: other)
  qed
qed


lemma merge_outer_alt:
  "merge_outer left right =
     concat (map (\<lambda>k. merge_rows k (lookup_rows k left) (lookup_rows k right))
       (sort (remdups (map fst left @ map fst right))))"
  by (simp add: merge_outer_def merge_rows_def lookup_rows_def Let_def)

lemma merge_rows_key: "p \<in> set (merge_rows k ls rs) \<Longrightarrow> fst p = k"
  by (auto simp: merge_rows_def split: if_splits)

lemma filter_merge_outer:
  "filter (\<lambda>p. fst p = k) (merge_outer left right) =
     (if k \<in> fst ` set left \<union> fst ` set right
      then merge_rows k (lookup_rows k left) (lookup_rows k right) else [])"
  unfolding merge_outer_alt
  by (subst filter_concat_by_key[where key = fst]) (auto simp: merge_rows_key)

lemma distinct_unique_values: "distinct (unique_values xs)"
  by (simp add: unique_values_def)

lemma set_unique_values: "set (unique_values xs) = set xs"
  by (simp add: unique_values_def)








section \<open>Loading the record store\<close>




lemma to_datetime_column_length: "to_datetime_column ss = Inr ds \<Longrightarrow> length ds = length ss"
  by (induction ss arbitrary: ds) (auto split: sum.splits)

lemma to_datetime_year_month:
  "to_datetime [y1, y2, y3, y4, CHR ''-'', m1, m2] =
     (if list_all is_digit [y1, y2, y3, y4] \<and> list_all is_digit [m1, m2]
      then mk_timestamp (digits_val [y1, y2, y3, y4]) (digits_val [m1, m2]) 1
      else Inl DateParseError)"
  by (simp add: to_datetime_def)

lemma load_succeeds:
  assumes "\<forall>r \<in> set rows. \<exists>d. to_datetime (raw_migration_month r) = Inr d"
  shows "\<exists>df. load_migration_data m rows = Inr df \<and> length df = length rows"
proof -
  have "\<exists>ds. to_datetime_column (map raw_migration_month rows) = Inr ds"
    using assms by (induction rows) auto
  then obtain ds where ds: "to_datetime_column (map raw_migration_month rows) = Inr ds" by blast
  from to_datetime_column_length[OF ds] ds show ?thesis
    by (simp add: load_migration_data_def)
qed

lemma mk_timestamp_first_day:
  "1 \<le> m \<Longrightarrow> m \<le> 12 \<Longrightarrow> \<exists>d. mk_timestamp y m (Suc 0) = Inr d"
  by (simp add: mk_timestamp_def days_in_month_def)

lemma spec_format_accepted:
  assumes "is_year_month_text s"
  shows "\<exists>d. to_datetime s = Inr d"
proof -
  from assms have dig: "list_all is_digit (take 4 s)" and dash: "s ! 4 = CHR ''-''"
    and mdig: "list_all is_digit (take 2 (drop 5 s))"
    and m1: "1 \<le> digits_val (take 2 (drop 5 s))" and m12: "digits_val (take 2 (drop 5 s)) \<le> 12"
    and len: "length s = 7 \<or> (length s = 10 \<and> drop 7 s = ''-01'')"
    by (simp_all add: is_year_month_text_def)
  from len show ?thesis
  proof
    assume l: "length s = 7"
    then have "take 2 (drop 5 s) = drop 5 s" by simp
    with l dig dash mdig m1 m12 show ?thesis
      by (simp add: to_datetime_def mk_timestamp_first_day)
  next
    assume l: "length s = 10 \<and> drop 7 s = ''-01''"
    then have d7: "drop 7 s = ''-01''" and l10: "length s = 10" by simp_all
    have "s ! 7 = drop 7 s ! 0" using l10 by simp
    with d7 have s7: "s ! 7 = CHR ''-''" by simp
    have "drop 8 s = drop 1 (drop 7 s)" by simp
    with d7 have d8: "drop 8 s = ''01''" by simp
    have v: "digits_val ''01'' = 1" by (simp add: digits_val_def)
    have dd: "list_all is_digit ''01''" by (simp add: is_digit_def)
    from l10 dig dash mdig s7 d8 v dd m1 m12 show ?thesis
      by (simp add: to_datetime_def mk_timestamp_first_day)
  qed
qed




section \<open>Names of regions\<close>







lemma country_code_is_recorded:
  assumes "row \<in> set rows" and "iso_alpha2 row \<noteq> None" and "code_cell k row = Some c"
  shows "recorded_cell k rows c \<noteq> None"
proof -
  have ne: "xs \<noteq> []" if "x \<in> set xs" for x and xs :: "m49_row list"
    using that by auto
  from assms have "row \<in> set (filter (\<lambda>row. iso_alpha2 row \<noteq> None \<and> code_cell k row = Some c) rows)"
    by simp
  then have "filter (\<lambda>row. iso_alpha2 row \<noteq> None \<and> code_cell k row = Some c) rows \<noteq> []"
    by (rule ne)
  then show ?thesis by (simp add: recorded_cell_def Let_def)
qed

lemma fallback_example:
  "name_for Region (load_regional_mappings example_classification) 142 = Some ''Region_142''"
  by code_simp

lemma region_to_country_example:
  "generate_region_to_country (load_regional_mappings example_classification) example_df =
     [\<lparr>rc_region_from = Some ''Region2'', rc_country_to = ''XX'',
       rc_migration_month = ''2020-01'', rc_num_migrants = 100\<rparr>]"
  by code_simp




section \<open>Country-to-country flows\<close>

text \<open>
  C7. The country-to-country operation emits one row per record of the enriched store, in
  the store's order: the projection of each record onto origin, destination, month and
  count. Its row count is the record count; nothing is dropped or summed.
\<close>

theorem country_to_country_projection:
  "length (generate_country_to_country df) = length df
   \<and> generate_country_to_country df =
       map (\<lambda>r. \<lparr>cf_country_from = country_from r, cf_country_to = country_to r,
                  cf_migration_month = migration_month r, cf_num_migrants = num_migrants r\<rparr>) df"
  by (simp add: generate_country_to_country_def)

section \<open>Net flows\<close>

lemma flow_sum_empty:
  "(a, b, y) \<notin> (\<lambda>r. (country_from r, country_to r, year r)) ` set df \<Longrightarrow> flow_sum df a b y = 0"
proof -
  assume h: "(a, b, y) \<notin> (\<lambda>r. (country_from r, country_to r, year r)) ` set df"
  have "filter (\<lambda>r. country_from r = a \<and> country_to r = b \<and> year r = y) df = []"
    using h by (auto simp: filter_empty_conv)
  then show ?thesis by (simp add: flow_sum_def)
qed

lemma outbound_lookup:
  "lookup_rows (a, b, y) (groupby_sum (\<lambda>r. (country_from r, country_to r, year r)) num_migrants df) =
     (if (a, b, y) \<in> (\<lambda>r. (country_from r, country_to r, year r)) ` set df then [flow_sum df a b y] else [])"
  by (simp add: lookup_groupby_sum flow_sum_def)

lemma inbound_lookup:
  "lookup_rows (a, b, y) (groupby_sum (\<lambda>r. (country_to r, country_from r, year r)) num_migrants df) =
     (if (a, b, y) \<in> (\<lambda>r. (country_to r, country_from r, year r)) ` set df then [flow_sum df b a y] else [])"
proof -
  have "filter (\<lambda>r. (country_to r, country_from r, year r) = (a, b, y)) df =
        filter (\<lambda>r. country_from r = b \<and> country_to r = a \<and> year r = y) df"
    by (rule filter_cong) auto
  then show ?thesis by (simp only: lookup_groupby_sum flow_sum_def)
qed

lemma swapped_key_image:
  "((a, b, y) \<in> (\<lambda>r. (country_to r, country_from r, year r)) ` set df) =
   ((b, a, y) \<in> (\<lambda>r. (country_from r, country_to r, year r)) ` set df)"
  by auto

lemma net_flows_filter:
  "filter (\<lambda>row. net_key row = (a, b, y)) (generate_net_flows df) =
     (if (a, b, y) \<in> (\<lambda>r. (country_from r, country_to r, year r)) ` set df
         \<or> (b, a, y) \<in> (\<lambda>r. (country_from r, country_to r, year r)) ` set df
      then [\<lparr>nf_country_from = a, nf_country_to = b, nf_year = y,
              net_flow = flow_sum df b a y - flow_sum df a b y,
              gross_flow = flow_sum df b a y + flow_sum df a b y\<rparr>]
      else [])"
proof -
  let ?out = "groupby_sum (\<lambda>r. (country_from r, country_to r, year r)) num_migrants df"
  let ?in = "groupby_sum (\<lambda>r. (country_to r, country_from r, year r)) num_migrants df"
  let ?g = "\<lambda>((cfrom, cto, yr), num_migrants_out, num_migrants_in).
                \<lparr>nf_country_from = cfrom, nf_country_to = cto, nf_year = yr,
                 net_flow = fillna 0 num_migrants_in - fillna 0 num_migrants_out,
                 gross_flow = fillna 0 num_migrants_in + fillna 0 num_migrants_out\<rparr>"
  have gen: "generate_net_flows df = map ?g (merge_outer ?out ?in)"
    by (simp add: generate_net_flows_def Let_def)
  have comp: "(\<lambda>row. net_key row = (a, b, y)) \<circ> ?g = (\<lambda>p. fst p = (a, b, y))"
    by (auto simp: fun_eq_iff net_key_def)
  have "filter (\<lambda>row. net_key row = (a, b, y)) (generate_net_flows df) =
        map ?g (filter (\<lambda>p. fst p = (a, b, y)) (merge_outer ?out ?in))"
    unfolding gen filter_map comp ..
  also have "\<dots> = map ?g
      (if (a, b, y) \<in> fst ` set ?out \<union> fst ` set ?in
       then merge_rows (a, b, y) (lookup_rows (a, b, y) ?out) (lookup_rows (a, b, y) ?in) else [])"
    by (simp only: filter_merge_outer)
  finally have step: "filter (\<lambda>row. net_key row = (a, b, y)) (generate_net_flows df) = map ?g
      (if (a, b, y) \<in> fst ` set ?out \<union> fst ` set ?in
       then merge_rows (a, b, y) (lookup_rows (a, b, y) ?out) (lookup_rows (a, b, y) ?in) else [])" .
  have ko: "fst ` set ?out = (\<lambda>r. (country_from r, country_to r, year r)) ` set df"
    using keys_groupby_sum[of "\<lambda>r. (country_from r, country_to r, year r)" num_migrants df] by simp
  have ki: "fst ` set ?in = (\<lambda>r. (country_to r, country_from r, year r)) ` set df"
    using keys_groupby_sum[of "\<lambda>r. (country_to r, country_from r, year r)" num_migrants df] by simp
  show ?thesis
    unfolding step ko ki outbound_lookup inbound_lookup
    using flow_sum_empty[of a b y df] flow_sum_empty[of b a y df]
    by (simp add: merge_rows_def fillna_def swapped_key_image[of a b y df])
qed

lemma example_load:
  "load_migration_data (load_regional_mappings example_classification) example_flows = Inr example_df"
  by (simp add: load_migration_data_def example_flows_def example_df_def to_datetime_year_month
      is_digit_def digits_val_def mk_timestamp_def days_in_month_def)

lemma example_net_flows:
  "generate_net_flows example_df =
     [\<lparr>nf_country_from = ''CC'', nf_country_to = ''XX'', nf_year = 2020, net_flow = - 60, gross_flow = 140\<rparr>,
      \<lparr>nf_country_from = ''XX'', nf_country_to = ''CC'', nf_year = 2020, net_flow = 60, gross_flow = 140\<rparr>]"
  by code_simp

text \<open>
  C1 (as amended). For the flow rows (CC,XX,"2020-01",100) and (XX,CC,"2020-01",40) the
  load succeeds and the net-flows output has, for year 2020 and the pair (origin CC,
  destination XX), exactly the row with net_flow = -60 and gross_flow = 140: inbound
  (XX to CC, 40) minus outbound (CC to XX, 100).
\<close>

theorem net_flows_example:
  "load_migration_data (load_regional_mappings example_classification) example_flows = Inr example_df
   \<and> filter (\<lambda>row. net_key row = (''CC'', ''XX'', 2020)) (generate_net_flows example_df) =
     [\<lparr>nf_country_from = ''CC'', nf_country_to = ''XX'', nf_year = 2020, net_flow = - 60, gross_flow = 140\<rparr>]"
  by code_simp

text \<open>
  C1 as stated fails: the output for this input has no row for year 2020 and the pair
  (CC, XX) with net_flow = 60 and gross_flow = 140.
\<close>

theorem net_flows_example_counterexample:
  "load_migration_data (load_regional_mappings example_classification) example_flows = Inr example_df
   \<and> \<lparr>nf_country_from = ''CC'', nf_country_to = ''XX'', nf_year = 2020, net_flow = 60, gross_flow = 140\<rparr>
       \<notin> set (generate_net_flows example_df)"
  by code_simp



text \<open>
  C10. The net-flows output is antisymmetric: with every row of key (A, B, year) it has a
  row of key (B, A, year), whose net_flow is the negated net_flow and whose gross_flow is
  the same gross_flow.
\<close>

theorem net_flows_antisymmetric:
  assumes "row \<in> set (generate_net_flows df)"
  shows "\<exists>row' \<in> set (generate_net_flows df).
           nf_country_from row' = nf_country_to row \<and> nf_country_to row' = nf_country_from row
           \<and> nf_year row' = nf_year row
           \<and> net_flow row' = - net_flow row \<and> gross_flow row' = gross_flow row"
proof -
  let ?a = "nf_country_from row" and ?b = "nf_country_to row" and ?y = "nf_year row"
  let ?K = "(\<lambda>r. (country_from r, country_to r, year r)) ` set df"
  let ?mk = "\<lambda>a b. \<lparr>nf_country_from = a, nf_country_to = b, nf_year = ?y,
              net_flow = flow_sum df b a ?y - flow_sum df a b ?y,
              gross_flow = flow_sum df b a ?y + flow_sum df a b ?y\<rparr>"
  from assms have mem: "row \<in> set (filter (\<lambda>r. net_key r = (?a, ?b, ?y)) (generate_net_flows df))"
    by (simp add: net_key_def)
  have cond: "(?a, ?b, ?y) \<in> ?K \<or> (?b, ?a, ?y) \<in> ?K"
  proof (rule ccontr)
    assume "\<not> ?thesis"
    then have "filter (\<lambda>r. net_key r = (?a, ?b, ?y)) (generate_net_flows df) = []"
      by (simp only: net_flows_filter if_False)
    with mem show False by simp
  qed
  then have "filter (\<lambda>r. net_key r = (?a, ?b, ?y)) (generate_net_flows df) = [?mk ?a ?b]"
    by (simp only: net_flows_filter if_True)
  with mem have row: "row = ?mk ?a ?b" by simp
  from cond have "(?b, ?a, ?y) \<in> ?K \<or> (?a, ?b, ?y) \<in> ?K" by blast
  then have "filter (\<lambda>r. net_key r = (?b, ?a, ?y)) (generate_net_flows df) = [?mk ?b ?a]"
    by (simp only: net_flows_filter if_True)
  then have "?mk ?b ?a \<in> set (filter (\<lambda>r. net_key r = (?b, ?a, ?y)) (generate_net_flows df))"
    by simp
  then have in_out: "?mk ?b ?a \<in> set (generate_net_flows df)" by simp
  have n: "net_flow row = flow_sum df ?b ?a ?y - flow_sum df ?a ?b ?y"
    and g: "gross_flow row = flow_sum df ?b ?a ?y + flow_sum df ?a ?b ?y"
    by (subst row, simp)+
  show ?thesis
    by (rule bexI[OF _ in_out]) (simp add: n g)
qed

text \<open>C10 at the example: the mirror of the row of (CC, XX, 2020).\<close>

theorem net_flows_antisymmetric_witness:
  "hd (generate_net_flows example_df) \<in> set (generate_net_flows example_df)
   \<and> (\<exists>row' \<in> set (generate_net_flows example_df).
           nf_country_from row' = ''XX'' \<and> nf_country_to row' = ''CC''
           \<and> nf_year row' = 2020 \<and> net_flow row' = 60 \<and> gross_flow row' = 140)"
proof -
  have h: "hd (generate_net_flows example_df) \<in> set (generate_net_flows example_df)"
    by (simp add: example_net_flows)
  have v: "hd (generate_net_flows example_df) =
    \<lparr>nf_country_from = ''CC'', nf_country_to = ''XX'', nf_year = 2020, net_flow = - 60, gross_flow = 140\<rparr>"
    by (simp add: example_net_flows)
  from net_flows_antisymmetric[OF h] h show ?thesis
    by (simp only: v) simp
qed

section \<open>Corridor rankings\<close>

lemma rankings_concat:
  "generate_corridor_rankings df =
     pd_concat (map (ranking_block df)
       (unique_values (map (\<lambda>((cfrom, cto, y), v). y) (annual_totals_of df))))"
  by (simp add: generate_corridor_rankings_def Let_def ranking_block_def[abs_def]
      year_totals_def[abs_def] annual_totals_of_def)

lemma ranking_block_year: "p \<in> set (ranking_block df yr) \<Longrightarrow> rk_year p = yr"
  by (auto simp: ranking_block_def)

lemma ranking_block_empty:
  "yr \<notin> set (map (\<lambda>((cfrom, cto, y), v). y) (annual_totals_of df)) \<Longrightarrow> ranking_block df yr = []"
  by (force simp: ranking_block_def filter_empty_conv)

lemma rankings_year_rows:
  assumes "generate_corridor_rankings df = Inr out"
  shows "filter (\<lambda>r. rk_year r = yr) out = ranking_block df yr"
proof -
  let ?ys = "unique_values (map (\<lambda>((cfrom, cto, y), v). y) (annual_totals_of df))"
  from assms have out: "out = concat (map (ranking_block df) ?ys)"
    by (auto simp: rankings_concat pd_concat_def split: if_splits)
  have "filter (\<lambda>r. rk_year r = yr) (concat (map (ranking_block df) ?ys)) =
        (if yr \<in> set ?ys then ranking_block df yr else [])"
    by (rule filter_concat_by_key) (simp_all add: distinct_unique_values ranking_block_year)
  then show ?thesis
    unfolding out using ranking_block_empty[of yr df]
    by (simp add: set_unique_values del: set_map)
qed

lemma ranking_block_totals:
  "map rk_num_migrants (ranking_block df yr) = year_totals df yr"
  by (simp add: ranking_block_def year_totals_def split_def comp_def)

lemma ranking_block_row:
  "r \<in> set (ranking_block df yr) \<Longrightarrow>
     rank r = rank_dense_desc (year_totals df yr) (rk_num_migrants r)
     \<and> percentile r = rank_pct (year_totals df yr) (rk_num_migrants r) * 100
     \<and> rk_num_migrants r \<in> set (year_totals df yr)"
  by (force simp: ranking_block_def year_totals_def image_iff)

lemma count_in_year_totals:
  assumes "generate_corridor_rankings df = Inr out"
  shows "count_in_year out yr P = length (filter P (year_totals df yr))"
proof -
  have "filter (\<lambda>r. rk_year r = yr \<and> P (rk_num_migrants r)) out =
        filter (\<lambda>r. P (rk_num_migrants r)) (filter (\<lambda>r. rk_year r = yr) out)"
    by (simp add: conj_commute)
  also have "\<dots> = filter (P \<circ> rk_num_migrants) (ranking_block df yr)"
    by (simp add: rankings_year_rows[OF assms] comp_def)
  finally have "count_in_year out yr P = length (filter (P \<circ> rk_num_migrants) (ranking_block df yr))"
    by (simp add: count_in_year_def)
  also have "\<dots> = length (filter P (map rk_num_migrants (ranking_block df yr)))"
    by (simp add: filter_map)
  finally show ?thesis by (simp add: ranking_block_totals)
qed

lemma sum_positions:
  "(of_nat (sum_list [l + 1 ..< l + e + 1]) :: rat) = of_nat e * of_nat l + of_nat e * (of_nat e + 1) / 2"
  by (induction e) (simp_all add: field_simps)

lemma rank_average_closed:
  assumes "v \<in> set vs"
  shows "rank_average vs v =
     of_nat (length (filter (\<lambda>w. w < v) vs)) + (of_nat (length (filter (\<lambda>w. w = v) vs)) + 1) / 2"
proof -
  from assms have "filter (\<lambda>w. w = v) vs \<noteq> []" by (auto simp: filter_empty_conv)
  then have e: "(of_nat (length (filter (\<lambda>w. w = v) vs)) :: rat) \<noteq> 0" by simp
  have "rank_average vs v =
     (of_nat (length (filter (\<lambda>w. w = v) vs)) * of_nat (length (filter (\<lambda>w. w < v) vs))
      + of_nat (length (filter (\<lambda>w. w = v) vs)) * (of_nat (length (filter (\<lambda>w. w = v) vs)) + 1) / 2)
     / of_nat (length (filter (\<lambda>w. w = v) vs))"
    unfolding rank_average_def Let_def sum_positions ..
  also have "\<dots> = of_nat (length (filter (\<lambda>w. w < v) vs))
      + (of_nat (length (filter (\<lambda>w. w = v) vs)) + 1) / 2"
    using e by (simp add: field_simps)
  finally show ?thesis .
qed

lemma length_filter_le_split:
  "length (filter (\<lambda>w. w \<le> v) vs) =
     length (filter (\<lambda>w. w < v) vs) + length (filter (\<lambda>w. w = (v::rat)) vs)"
  by (induction vs) auto

lemma rank_dense_next:
  assumes "v \<in> set vs" and "v' < v" and "\<forall>w \<in> set vs. \<not> (v' < w \<and> w < v)"
  shows "rank_dense_desc vs v' = rank_dense_desc vs v + 1"
proof -
  let ?ds = "sort (remdups vs)"
  have d: "distinct ?ds" by simp
  have "{w. v' < w} \<inter> set ?ds = insert v ({w. v < w} \<inter> set ?ds)"
    using assms by auto
  moreover have "v \<notin> {w. v < w} \<inter> set ?ds" by simp
  ultimately have "card ({w. v' < w} \<inter> set ?ds) = card ({w. v < w} \<inter> set ?ds) + 1"
    by simp
  then have "length (filter (\<lambda>w. v' < w) ?ds) = length (filter (\<lambda>w. v < w) ?ds) + 1"
    by (simp only: distinct_length_filter[OF d])
  then show ?thesis by (simp add: rank_dense_desc_def)
qed

lemma rank_dense_mono:
  assumes "v \<in> set vs" and "v' < v"
  shows "rank_dense_desc vs v < rank_dense_desc vs v'"
proof -
  let ?ds = "sort (remdups vs)"
  have d: "distinct ?ds" by simp
  have "{w. v < w} \<inter> set ?ds \<subset> {w. v' < w} \<inter> set ?ds"
    using assms by auto
  then have "card ({w. v < w} \<inter> set ?ds) < card ({w. v' < w} \<inter> set ?ds)"
    by (intro psubset_card_mono) auto
  then have "length (filter (\<lambda>w. v < w) ?ds) < length (filter (\<lambda>w. v' < w) ?ds)"
    by (simp only: distinct_length_filter[OF d])
  then show ?thesis by (simp add: rank_dense_desc_def)
qed

lemma rank_dense_top:
  assumes "\<forall>w \<in> set vs. w \<le> v"
  shows "rank_dense_desc vs v = 1"
proof -
  have "filter (\<lambda>w. v < w) (sort (remdups vs)) = []"
    using assms by (auto simp: filter_empty_conv)
  then show ?thesis by (simp add: rank_dense_desc_def)
qed

lemma rankings_row:
  assumes "generate_corridor_rankings df = Inr out" and "r \<in> set out"
  shows "rank r = rank_dense_desc (year_totals df (rk_year r)) (rk_num_migrants r)"
    and "percentile r = rank_pct (year_totals df (rk_year r)) (rk_num_migrants r) * 100"
    and "rk_num_migrants r \<in> set (year_totals df (rk_year r))"
proof -
  from assms(2) have "r \<in> set (filter (\<lambda>r'. rk_year r' = rk_year r) out)" by simp
  then have "r \<in> set (ranking_block df (rk_year r))"
    by (simp only: rankings_year_rows[OF assms(1)])
  from ranking_block_row[OF this]
  show "rank r = rank_dense_desc (year_totals df (rk_year r)) (rk_num_migrants r)"
    and "percentile r = rank_pct (year_totals df (rk_year r)) (rk_num_migrants r) * 100"
    and "rk_num_migrants r \<in> set (year_totals df (rk_year r))"
    by simp_all
qed

lemma tie_load: "load_migration_data empty_mappings tie_flows = Inr tie_df"
  by (simp add: load_migration_data_def tie_flows_def tie_df_def to_datetime_year_month
      is_digit_def digits_val_def mk_timestamp_def days_in_month_def)

lemma tie_rankings_eq: "generate_corridor_rankings tie_df = Inr tie_rankings"
  by code_simp

text \<open>
  C6. In the corridor-rankings output, for two rows of one year: equal totals have equal
  ranks; a lower total has a greater rank (ranking descends by total); when no total of
  the year lies strictly between the two, the lower total's rank is exactly one greater
  (dense, never skipped); a total that none of the year exceeds has rank 1. The percentile
  of a row is 100 times its average rank over the number of the year's corridors, the
  average rank being the number of smaller totals plus the mean position within the group
  of equal totals (its size plus one, halved); for a total without ties this is the
  fraction of the year's corridors with total at most its total, times 100.
\<close>

theorem corridor_rankings_dense_percentile:
  assumes "generate_corridor_rankings df = Inr out"
    and "r1 \<in> set out" and "r2 \<in> set out" and "rk_year r2 = rk_year r1"
  shows "(rk_num_migrants r2 = rk_num_migrants r1 \<longrightarrow> rank r2 = rank r1)
    \<and> (rk_num_migrants r2 < rk_num_migrants r1 \<longrightarrow> rank r1 < rank r2)
    \<and> (rk_num_migrants r2 < rk_num_migrants r1
         \<and> count_in_year out (rk_year r1)
             (\<lambda>v. rk_num_migrants r2 < v \<and> v < rk_num_migrants r1) = 0
       \<longrightarrow> rank r2 = rank r1 + 1)
    \<and> (count_in_year out (rk_year r1) (\<lambda>v. rk_num_migrants r1 < v) = 0 \<longrightarrow> rank r1 = 1)
    \<and> percentile r1 =
        (of_nat (count_in_year out (rk_year r1) (\<lambda>v. v < rk_num_migrants r1))
         + (of_nat (count_in_year out (rk_year r1) (\<lambda>v. v = rk_num_migrants r1)) + 1) / 2)
        / of_nat (count_in_year out (rk_year r1) (\<lambda>v. True)) * 100
    \<and> (count_in_year out (rk_year r1) (\<lambda>v. v = rk_num_migrants r1) = 1
       \<longrightarrow> percentile r1 =
            of_nat (count_in_year out (rk_year r1) (\<lambda>v. v \<le> rk_num_migrants r1))
            / of_nat (count_in_year out (rk_year r1) (\<lambda>v. True)) * 100)"
proof -
  let ?y = "rk_year r1" and ?t1 = "rk_num_migrants r1" and ?t2 = "rk_num_migrants r2"
  let ?vs = "year_totals df ?y"
  note c = count_in_year_totals[OF assms(1)]
  have k1: "rank r1 = rank_dense_desc ?vs ?t1"
    and p1: "percentile r1 = rank_pct ?vs ?t1 * 100"
    and m1: "?t1 \<in> set ?vs"
    using rankings_row[OF assms(1) assms(2)] by simp_all
  have k2: "rank r2 = rank_dense_desc ?vs ?t2" and m2: "?t2 \<in> set ?vs"
    using rankings_row[OF assms(1) assms(3)] assms(4) by simp_all
  have a: "?t2 = ?t1 \<longrightarrow> rank r2 = rank r1"
    by (simp add: k1 k2)
  have b: "?t2 < ?t1 \<longrightarrow> rank r1 < rank r2"
    using rank_dense_mono[OF m1] by (simp add: k1 k2)
  have d: "?t2 < ?t1 \<and> count_in_year out ?y (\<lambda>v. ?t2 < v \<and> v < ?t1) = 0
             \<longrightarrow> rank r2 = rank r1 + 1"
  proof
    assume h: "?t2 < ?t1 \<and> count_in_year out ?y (\<lambda>v. ?t2 < v \<and> v < ?t1) = 0"
    then have "filter (\<lambda>v. ?t2 < v \<and> v < ?t1) ?vs = []" by (simp add: c)
    then have "\<forall>w \<in> set ?vs. \<not> (?t2 < w \<and> w < ?t1)" by (simp add: filter_empty_conv)
    from rank_dense_next[OF m1 _ this] h show "rank r2 = rank r1 + 1" by (simp add: k1 k2)
  qed
  have e: "count_in_year out ?y (\<lambda>v. ?t1 < v) = 0 \<longrightarrow> rank r1 = 1"
  proof
    assume "count_in_year out ?y (\<lambda>v. ?t1 < v) = 0"
    then have "filter (\<lambda>v. ?t1 < v) ?vs = []" by (simp add: c)
    then have "\<forall>w \<in> set ?vs. w \<le> ?t1" by (auto simp: filter_empty_conv not_less)
    from rank_dense_top[OF this] show "rank r1 = 1" by (simp add: k1)
  qed
  have f: "percentile r1 =
        (of_nat (count_in_year out ?y (\<lambda>v. v < ?t1))
         + (of_nat (count_in_year out ?y (\<lambda>v. v = ?t1)) + 1) / 2)
        / of_nat (count_in_year out ?y (\<lambda>v. True)) * 100"
    by (simp add: p1 rank_pct_def rank_average_closed[OF m1] c)
  have g: "count_in_year out ?y (\<lambda>v. v = ?t1) = 1
       \<longrightarrow> percentile r1 =
            of_nat (count_in_year out ?y (\<lambda>v. v \<le> ?t1))
            / of_nat (count_in_year out ?y (\<lambda>v. True)) * 100"
  proof
    assume h: "count_in_year out ?y (\<lambda>v. v = ?t1) = 1"
    have "count_in_year out ?y (\<lambda>v. v \<le> ?t1) = count_in_year out ?y (\<lambda>v. v < ?t1) + 1"
      using h by (simp add: c length_filter_le_split)
    then show "percentile r1 =
            of_nat (count_in_year out ?y (\<lambda>v. v \<le> ?t1))
            / of_nat (count_in_year out ?y (\<lambda>v. True)) * 100"
      by (simp add: f h)
  qed
  from a b d e f g show ?thesis by blast
qed

text \<open>C6 at the example with a tie: totals 10, 7, 10, 3 in 2020.\<close>

theorem corridor_rankings_dense_percentile_witness:
  "generate_corridor_rankings tie_df = Inr tie_rankings
   \<and> tie_rankings ! 0 \<in> set tie_rankings \<and> tie_rankings ! 1 \<in> set tie_rankings
   \<and> rk_year (tie_rankings ! 1) = rk_year (tie_rankings ! 0)
   \<and> rk_num_migrants (tie_rankings ! 1) < rk_num_migrants (tie_rankings ! 0)
   \<and> count_in_year tie_rankings 2020 (\<lambda>v. 7 < v \<and> v < 10) = 0
   \<and> rank (tie_rankings ! 1) = rank (tie_rankings ! 0) + 1
   \<and> percentile (tie_rankings ! 0) = (2 + (2 + 1) / 2) / 4 * 100"
proof -
  have h1: "generate_corridor_rankings tie_df = Inr tie_rankings" by (rule tie_rankings_eq)
  have h2: "tie_rankings ! 0 \<in> set tie_rankings" by code_simp
  have h3: "tie_rankings ! 1 \<in> set tie_rankings" by code_simp
  have h4: "rk_year (tie_rankings ! 1) = rk_year (tie_rankings ! 0)" by code_simp
  have y: "rk_year (tie_rankings ! 0) = 2020" by code_simp
  have t1: "rk_num_migrants (tie_rankings ! 0) = 10" by code_simp
  have t2: "rk_num_migrants (tie_rankings ! 1) = 7" by code_simp
  have c0: "count_in_year tie_rankings 2020 (\<lambda>v. 7 < v \<and> v < 10) = 0" by code_simp
  have c1: "count_in_year tie_rankings 2020 (\<lambda>v. v < 10) = 2" by code_simp
  have c2: "count_in_year tie_rankings 2020 (\<lambda>v. v = 10) = 2" by code_simp
  have c3: "count_in_year tie_rankings 2020 (\<lambda>v. True) = 4" by code_simp
  from corridor_rankings_dense_percentile[OF h1 h2 h3 h4] h1 h2 h3 h4 c0 show ?thesis
    by (simp only: y t1 t2 c0 c1 c2 c3) simp
qed

section \<open>Growth rates\<close>


















lemma growth_load: "load_migration_data empty_mappings growth_flows = Inr growth_df"
  by (simp add: load_migration_data_def growth_flows_def growth_df_def to_datetime_year_month
      is_digit_def digits_val_def mk_timestamp_def days_in_month_def)

lemma growth_example:
  "generate_growth_rates growth_df =
     [\<lparr>gr_country_from = ''AA'', gr_country_to = ''BB'', gr_year = 2020,
       gr_num_migrants = 15, growth_rate = Some 50, growth_velocity = None\<rparr>,
      \<lparr>gr_country_from = ''AA'', gr_country_to = ''BB'', gr_year = 2022,
       gr_num_migrants = 30, growth_rate = Some 100, growth_velocity = Some 50\<rparr>]"
  by code_simp



section \<open>Least squares\<close>












section \<open>Rolling averages and trend\<close>








lemma rolling_load:
  "load_migration_data (load_regional_mappings example_classification) rolling_flows =
     Inr rolling_df"
  by (simp add: load_migration_data_def rolling_flows_def rolling_df_def to_datetime_year_month
      is_digit_def digits_val_def mk_timestamp_def days_in_month_def)




section \<open>The run and its artifacts\<close>

lemma rolling_run_eq:
  "generate_all_variations (load_regional_mappings example_classification) rolling_df [] =
     Inr rolling_run"
  by code_simp

lemma rolling_written_iff:
  "(generate_rolling_averages df \<noteq> None) =
     list_ex (\<lambda>(a, b). 6 \<le> length (corridor_obs df a b)) (top_corridors df)"
proof -
  have "(corridor_data df \<noteq> []) =
        (\<exists>k \<in> set (top_corridors df). 6 \<le> length (corridor_obs df (fst k) (snd k)))"
    by (auto simp: corridor_data_def corridor_obs_def Let_def split_def)
  then show ?thesis
    by (simp add: generate_rolling_averages_def list_ex_iff split_def)
qed

lemma all_variations_report:
  assumes "generate_all_variations m df existing = Inr run"
  shows "generated_files run =
        [''flows_country_to_country_monthly.json'', ''flows_region_to_country_monthly.json'',
         ''flows_country_to_region_monthly.json'', ''flows_region_to_region_monthly.json'',
         ''flows_subregion_to_subregion_monthly.json'',
         ''flows_country_to_country_quarterly.json'', ''flows_country_to_country_annual.json'',
         ''flows_seasonal_patterns_country.json'', ''flows_rolling_averages_top100.json'',
         ''flows_gross_annual_country.json'', ''flows_net_annual_country.json'',
         ''flows_corridor_rankings_annual.json'', ''flows_growth_rates_annual.json'']"
    and "written run =
        [''flows_country_to_country_monthly.json'', ''flows_region_to_country_monthly.json'',
         ''flows_country_to_region_monthly.json'', ''flows_region_to_region_monthly.json'',
         ''flows_subregion_to_subregion_monthly.json'']
        @ (if intermediate_names m \<noteq> []
           then [''flows_intermediate_to_intermediate_monthly.json''] else [])
        @ [''flows_country_to_country_quarterly.json'', ''flows_country_to_country_annual.json'',
           ''flows_region_to_region_annual.json'', ''flows_seasonal_patterns_country.json'']
        @ (if generate_rolling_averages df \<noteq> None
           then [''flows_rolling_averages_top100.json''] else [])
        @ [''flows_gross_annual_country.json'', ''flows_net_annual_country.json'',
           ''flows_corridor_rankings_annual.json'', ''flows_growth_rates_annual.json'']"
    and "existing = [] \<longrightarrow> generate_rolling_averages df \<noteq> None"
proof -
  let ?effects = "[country_to_country_files, region_to_country_files, country_to_region_files,
                  region_to_region_files, subregional_clustering_files m,
                  quarterly_averages_files, annual_totals_files, seasonal_patterns_files,
                  rolling_averages_files df,
                  gross_flows_files, net_flows_files, corridor_rankings_files,
                  growth_rates_files]"
  let ?report = "\<lparr>generated_files = map fst ?effects, written = concat (map snd ?effects)\<rparr>"
  from assms have run: "run = ?report"
    and ok: "list_all (\<lambda>f. f \<in> set existing \<or> f \<in> set (written ?report)) (generated_files ?report)"
    by (auto simp: generate_all_variations_def Let_def split: sum.splits if_splits)
  note defs = country_to_country_files_def region_to_country_files_def
    country_to_region_files_def region_to_region_files_def subregional_clustering_files_def
    quarterly_averages_files_def annual_totals_files_def seasonal_patterns_files_def
    rolling_averages_files_def gross_flows_files_def net_flows_files_def
    corridor_rankings_files_def growth_rates_files_def
  show g: "generated_files run =
        [''flows_country_to_country_monthly.json'', ''flows_region_to_country_monthly.json'',
         ''flows_country_to_region_monthly.json'', ''flows_region_to_region_monthly.json'',
         ''flows_subregion_to_subregion_monthly.json'',
         ''flows_country_to_country_quarterly.json'', ''flows_country_to_country_annual.json'',
         ''flows_seasonal_patterns_country.json'', ''flows_rolling_averages_top100.json'',
         ''flows_gross_annual_country.json'', ''flows_net_annual_country.json'',
         ''flows_corridor_rankings_annual.json'', ''flows_growth_rates_annual.json'']"
    by (simp add: run defs)
  show w: "written run =
        [''flows_country_to_country_monthly.json'', ''flows_region_to_country_monthly.json'',
         ''flows_country_to_region_monthly.json'', ''flows_region_to_region_monthly.json'',
         ''flows_subregion_to_subregion_monthly.json'']
        @ (if intermediate_names m \<noteq> []
           then [''flows_intermediate_to_intermediate_monthly.json''] else [])
        @ [''flows_country_to_country_quarterly.json'', ''flows_country_to_country_annual.json'',
           ''flows_region_to_region_annual.json'', ''flows_seasonal_patterns_country.json'']
        @ (if generate_rolling_averages df \<noteq> None
           then [''flows_rolling_averages_top100.json''] else [])
        @ [''flows_gross_annual_country.json'', ''flows_net_annual_country.json'',
           ''flows_corridor_rankings_annual.json'', ''flows_growth_rates_annual.json'']"
    by (simp add: run defs)
  show "existing = [] \<longrightarrow> generate_rolling_averages df \<noteq> None"
  proof (rule impI, rule ccontr)
    assume e: "existing = []" and "\<not> generate_rolling_averages df \<noteq> None"
    then have none: "generate_rolling_averages df = None" by simp
    from ok have "''flows_rolling_averages_top100.json'' \<in> set existing
        \<or> ''flows_rolling_averages_top100.json'' \<in> set (written ?report)"
      by (simp add: defs)
    with e have "''flows_rolling_averages_top100.json'' \<in> set (written ?report)" by simp
    then show False by (simp add: defs none)
  qed
qed

text \<open>
  C3 (as amended). Every complete run returns 13 artifact paths, one per operation, and
  writes 13, 14 or 15 distinct JSON artifacts: thirteen in every run (the annual-totals
  operation writes the country totals and the region totals), the intermediate-region
  flows when an intermediate name is recorded, and the rolling averages when some top-100
  corridor has at least 6 observations. A run into an empty output directory completes
  only if it writes the rolling averages, so it writes at least 14.
\<close>

theorem all_variations_artifacts:
  assumes "generate_all_variations m df existing = Inr run"
  shows "length (generated_files run) = 13
    \<and> distinct (written run)
    \<and> length (written run) =
        13 + (if intermediate_names m \<noteq> [] then 1 else 0)
           + (if list_ex (\<lambda>(a, b). 6 \<le> length (corridor_obs df a b)) (top_corridors df)
              then 1 else 0)
    \<and> (existing = [] \<longrightarrow> 14 \<le> length (written run))"
proof -
  note r = all_variations_report[OF assms]
  have a: "length (generated_files run) = 13" by (simp add: r(1))
  have b: "distinct (written run)" by (simp add: r(2))
  have c0: "length (written run) =
        13 + (if intermediate_names m \<noteq> [] then 1 else 0)
           + (if generate_rolling_averages df \<noteq> None then 1 else 0)"
    by (simp add: r(2))
  then have c: "length (written run) =
        13 + (if intermediate_names m \<noteq> [] then 1 else 0)
           + (if list_ex (\<lambda>(a, b). 6 \<le> length (corridor_obs df a b)) (top_corridors df)
              then 1 else 0)"
    by (simp only: rolling_written_iff)
  have d: "existing = [] \<longrightarrow> 14 \<le> length (written run)"
    using r(3) c0 by simp
  from a b c d show ?thesis by (intro conjI)
qed

text \<open>C3 at the twelve-month example in an empty output directory: 13 paths, 14 files.\<close>

theorem all_variations_artifacts_witness:
  "generate_all_variations (load_regional_mappings example_classification) rolling_df [] =
     Inr rolling_run
   \<and> length (generated_files rolling_run) = 13
   \<and> distinct (written rolling_run)
   \<and> length (written rolling_run) = 13 + 0 + 1"
proof -
  have i: "intermediate_names (load_regional_mappings example_classification) = []"
    by code_simp
  have t: "list_ex (\<lambda>(a, b). 6 \<le> length (corridor_obs rolling_df a b)) (top_corridors rolling_df)"
    by code_simp
  from all_variations_artifacts[OF rolling_run_eq] rolling_run_eq show ?thesis
    by (simp only: i t) simp
qed

text \<open>
  C3 as stated fails: the twelve-month example loads, and the run on it completes in an
  empty output directory and writes 14 artifacts, the region annual totals among them.
\<close>

theorem all_variations_fourteen_counterexample:
  "load_migration_data (load_regional_mappings example_classification) rolling_flows =
     Inr rolling_df
   \<and> generate_all_variations (load_regional_mappings example_classification) rolling_df [] =
     Inr rolling_run
   \<and> length (written rolling_run) = 14
   \<and> ''flows_region_to_region_annual.json'' \<in> set (written rolling_run)"
  using rolling_load rolling_run_eq by (simp add: rolling_run_def)

end
